theory Spec2Isabelle
  imports Main "HOL-Library.Word"
begin

section \<open>Bytes and strings\<close>

text \<open>
  A Go \<^verbatim>\<open>string\<close> and a \<^verbatim>\<open>[]byte\<close> are sequences of bytes; both are
  modelled as \<^typ>\<open>string\<close>, a list of 8-bit characters. A byte is read as a number with
  \<^term>\<open>of_char\<close> and written back with \<^term>\<open>char_of\<close>, which reduces modulo 256 as the
  arithmetic of Go's \<^verbatim>\<open>byte\<close> does.
\<close>

subsection \<open>util.ASCIIToLower (src/util/util.go)\<close>

text \<open>
  The body of the loop: \<^verbatim>\<open>if 'A' <= c && c <= 'Z' { c += 'a' - 'A' }\<close> on a byte.
\<close>

definition lower_byte :: "char \<Rightarrow> char" where
  "lower_byte c =
     (if (65::nat) \<le> of_char c \<and> of_char c \<le> (90::nat)
      then char_of (of_char c + (97 - 65 :: nat)) else c)"

text \<open>
  The loop \<^verbatim>\<open>for i := 0; i < len(s); i++\<close>, with the builder \<open>b\<close> as accumulator.
\<close>

function ASCIIToLower_loop :: "string \<Rightarrow> nat \<Rightarrow> string \<Rightarrow> string" where
  "ASCIIToLower_loop s i b =
     (if i < length s then ASCIIToLower_loop s (i + 1) (b @ [lower_byte (s ! i)]) else b)"
  by pat_completeness auto
termination
  by (relation "measure (\<lambda>(s, i, b). length s - i)") auto

declare ASCIIToLower_loop.simps [simp del]

definition ASCIIToLower :: "string \<Rightarrow> string" where
  "ASCIIToLower s = ASCIIToLower_loop s 0 []"

text \<open>
  The function as the specification words it: each byte in \<open>'A'..'Z'\<close> goes to its
  lowercase counterpart, every other byte stays.
\<close>

definition lowercase_counterpart_spec :: "char \<Rightarrow> char" where
  "lowercase_counterpart_spec c =
     (case map_of (zip ''ABCDEFGHIJKLMNOPQRSTUVWXYZ'' ''abcdefghijklmnopqrstuvwxyz'') c of
        Some l \<Rightarrow> l
      | None \<Rightarrow> c)"

definition ASCIIToLower_spec :: "string \<Rightarrow> string" where
  "ASCIIToLower_spec s = map lowercase_counterpart_spec s"

subsection \<open>transport.NetworkToLower (src/transport/layer.go)\<close>

definition NetworkToLower :: "string \<Rightarrow> string" where
  "NetworkToLower network =
     (if network = ''UDP'' then ''udp''
      else if network = ''TCP'' then ''tcp''
      else if network = ''TLS'' then ''tls''
      else if network = ''WS'' then ''ws''
      else ASCIIToLower network)"

section \<open>The message envelope (src/message/message.go)\<close>

subsection \<open>The structured message of the external codec\<close>

text \<open>
  The codec (package \<^verbatim>\<open>sip\<close> of gosip) is not part of the repository. Of its types
  the model keeps the fields the repository reads or writes. A \<^verbatim>\<open>*sip.Param\<close> is a
  linked list of nodes \<^verbatim>\<open>{Name, Value, Next}\<close>: a list of pairs, the nil pointer being
  the empty list. A pointer to a header (\<^verbatim>\<open>*sip.Via\<close>, \<^verbatim>\<open>*sip.Addr\<close>) is an
  option, \<^term>\<open>None\<close> for nil.
\<close>

type_synonym sip_Param = "(string \<times> string) list"

record sip_Addr =
  Display :: string
  Uri :: string
  addr_Param :: sip_Param

record sip_Via =
  via_Transport :: string
  via_Param :: sip_Param

record sip_Msg =
  Method :: string
  Status :: int
  Phrase :: string
  Via :: "sip_Via option"
  To :: "sip_Addr option"
  From :: "sip_Addr option"
  CallID :: string
  CSeq :: int
  CSeqMethod :: string
  Payload :: "string option"

text \<open>
  \<^verbatim>\<open>p.Get(name)\<close> walks the list and returns the first node of that name, or nil; it may
  be called on a nil list. \<^verbatim>\<open>.Value\<close> on the nil result is a nil-pointer dereference:
  the program panics. A panic is the result \<^term>\<open>None\<close> throughout.
\<close>

fun Param_Get :: "sip_Param \<Rightarrow> string \<Rightarrow> (string \<times> string) option" where
  "Param_Get [] name = None"
| "Param_Get ((n, v) # nxt) name = (if n = name then Some (n, v) else Param_Get nxt name)"

definition Param_Value :: "(string \<times> string) option \<Rightarrow> string option" where
  "Param_Value p = (case p of None \<Rightarrow> None | Some (n, v) \<Rightarrow> Some v)"


subsection \<open>The store of structured messages\<close>

text \<open>
  An envelope holds a pointer \<^verbatim>\<open>Msg *sip.Msg\<close>, and the code updates the message
  behind it in place. The messages live in a store, a list of cells; a pointer is
  the index of a cell, \<^term>\<open>None\<close> is nil. Reading through nil (or through an index
  that was never allocated) panics.
\<close>

type_synonym store = "sip_Msg list"

type_synonym ptr = "nat option"

definition deref :: "store \<Rightarrow> ptr \<Rightarrow> sip_Msg option" where
  "deref h p = (case p of None \<Rightarrow> None
                | Some i \<Rightarrow> if i < length h then Some (h ! i) else None)"

definition assign :: "store \<Rightarrow> ptr \<Rightarrow> sip_Msg \<Rightarrow> store option" where
  "assign h p m = (case p of None \<Rightarrow> None
                   | Some i \<Rightarrow> if i < length h then Some (h[i := m]) else None)"

text \<open>
  \<^verbatim>\<open>msg.Copy()\<close> of the codec: nil for nil, otherwise a pointer to a new message
  with the same contents.
\<close>

definition Msg_Copy :: "store \<Rightarrow> ptr \<Rightarrow> store \<times> ptr" where
  "Msg_Copy h p = (case deref h p of None \<Rightarrow> (h, None)
                   | Some m \<Rightarrow> (h @ [m], Some (length h)))"

subsection \<open>Message and its methods\<close>

text \<open>
  \<^verbatim>\<open>Respond\<close> is a function value that \<^verbatim>\<open>Clone\<close> copies as it is; the model keeps
  only its identity.
\<close>

record Message =
  Msg :: ptr
  Transport :: string
  Source :: string
  Destination :: string
  Respond :: "nat option"

definition Clone :: "store \<Rightarrow> Message \<Rightarrow> store \<times> Message" where
  "Clone h m =
     (let (h', p) = Msg_Copy h (Msg m)
      in (h', \<lparr>Msg = p, Transport = Transport m, Source = Source m,
                Destination = Destination m, Respond = Respond m\<rparr>))"

definition GetCallID :: "store \<Rightarrow> Message \<Rightarrow> string option" where
  "GetCallID h m = (case deref h (Msg m) of None \<Rightarrow> None | Some msg \<Rightarrow> Some (CallID msg))"

definition GetToTag :: "store \<Rightarrow> Message \<Rightarrow> string option" where
  "GetToTag h m =
     (case deref h (Msg m) of None \<Rightarrow> None
      | Some msg \<Rightarrow>
          (case To msg of None \<Rightarrow> None
           | Some to \<Rightarrow>
               (let toParam = addr_Param to
                in if toParam = [] then Some []
                   else Param_Value (Param_Get toParam ''tag''))))"

definition GetFromTag :: "store \<Rightarrow> Message \<Rightarrow> string option" where
  "GetFromTag h m =
     (case deref h (Msg m) of None \<Rightarrow> None
      | Some msg \<Rightarrow>
          (case From msg of None \<Rightarrow> None
           | Some from \<Rightarrow>
               (let fromParam = addr_Param from
                in if fromParam = [] then Some []
                   else Param_Value (Param_Get fromParam ''tag''))))"

text \<open>Errors are values. \<^verbatim>\<open>fmt.Errorf\<close> with \<^verbatim>\<open>%w\<close> wraps the error of a callee.\<close>

datatype error =
    Errorf string
  | Wrapped string string
  | External string
  | ErrUDPMTUCongestion
  | ErrNetworkNotSupported

fun strings_Join :: "string list \<Rightarrow> string \<Rightarrow> string" where
  "strings_Join [] sep = []"
| "strings_Join [x] sep = x"
| "strings_Join (x # y # ys) sep = x @ sep @ strings_Join (y # ys) sep"

definition MakeDialogID :: "string \<Rightarrow> string \<Rightarrow> string \<Rightarrow> string" where
  "MakeDialogID callID innerID externalID = strings_Join [callID, innerID, externalID] ''__''"

text \<open>
  The result of \<^verbatim>\<open>MakeDialogIDFromMessage\<close> is \<^term>\<open>None\<close> when it panics,
  \<^term>\<open>Some (Inl e)\<close> when it returns the error \<open>e\<close>, and \<^term>\<open>Some (Inr d)\<close> when it
  returns the dialog identity \<open>d\<close>. The getters are called one after the other, each
  only when the checks before it passed.
\<close>

definition MakeDialogIDFromMessage :: "store \<Rightarrow> Message \<Rightarrow> (error + string) option" where
  "MakeDialogIDFromMessage h m =
     (case GetCallID h m of None \<Rightarrow> None
      | Some callID \<Rightarrow>
          if callID = [] then Some (Inl (Errorf ''missing Call-ID header''))
          else (case GetToTag h m of None \<Rightarrow> None
                | Some toTag \<Rightarrow>
                    if toTag = [] then Some (Inl (Errorf ''missing tag param in To header''))
                    else (case GetFromTag h m of None \<Rightarrow> None
                          | Some fromTag \<Rightarrow>
                              if fromTag = []
                              then Some (Inl (Errorf ''missing tag param in From header''))
                              else Some (Inr (MakeDialogID callID toTag fromTag)))))"

section \<open>Building a reply (src/response.go)\<close>

definition NewResponseFromRequest ::
  "store \<Rightarrow> Message \<Rightarrow> int \<Rightarrow> string \<Rightarrow> (store \<times> Message) option" where
  "NewResponseFromRequest h req status phrase =
     (let (h1, res) = Clone h req
      in case deref h1 (Msg res) of None \<Rightarrow> None
         | Some m \<Rightarrow>
             (case assign h1 (Msg res) (m\<lparr>Status := status, Phrase := phrase\<rparr>) of
                None \<Rightarrow> None
              | Some h2 \<Rightarrow>
                  Some (h2, res\<lparr>Destination := Source res, Source := Destination res\<rparr>)))"

text \<open>
  The repository holds a second version of the function, which calls
  \<^verbatim>\<open>res.Msg.To.Tag()\<close> when \<^verbatim>\<open>req.GetToTag()\<close> is empty. \<^verbatim>\<open>Tag\<close> is a method of
  the codec with the signature \<^verbatim>\<open>func (addr *Addr) Tag() *Addr\<close>; the statement drops
  the value it returns. The parameter \<open>Tag\<close> gives, for the address the receiver
  points to, the address it points to after the call and the address returned.
  gosip's method works on a copy of the receiver: the receiver stays as it is and
  the copy, with a new tag parameter in front, is returned.
\<close>

definition gosip_Tag :: "string \<Rightarrow> sip_Addr \<Rightarrow> sip_Addr \<times> sip_Addr" where
  "gosip_Tag tag addr = (addr, addr\<lparr>addr_Param := (''tag'', tag) # addr_Param addr\<rparr>)"

definition NewResponseFromRequest_tag ::
  "(sip_Addr \<Rightarrow> sip_Addr \<times> sip_Addr) \<Rightarrow> store \<Rightarrow> Message \<Rightarrow> int \<Rightarrow> string
   \<Rightarrow> (store \<times> Message) option" where
  "NewResponseFromRequest_tag Tag h req status phrase =
     (let (h1, res) = Clone h req
      in case deref h1 (Msg res) of None \<Rightarrow> None
         | Some m \<Rightarrow>
             (case assign h1 (Msg res) (m\<lparr>Status := status, Phrase := phrase\<rparr>) of
                None \<Rightarrow> None
              | Some h2 \<Rightarrow>
                  (case GetToTag h2 req of
                     None \<Rightarrow> None
                   | Some toTag \<Rightarrow>
                       (case (if toTag = []
                              then (case deref h2 (Msg res) of
                                      None \<Rightarrow> None
                                    | Some m2 \<Rightarrow>
                                        (case To m2 of
                                           None \<Rightarrow> None
                                         | Some to \<Rightarrow>
                                             assign h2 (Msg res) (m2\<lparr>To := Some (fst (Tag to))\<rparr>)))
                              else Some h2) of
                          None \<Rightarrow> None
                        | Some h3 \<Rightarrow>
                            Some (h3, res\<lparr>Destination := Source res,
                                          Source := Destination res\<rparr>)))))"

section \<open>The parser (src/parser/parser.go)\<close>

text \<open>
  \<^verbatim>\<open>sip.ParseMsg\<close> is the codec's parser, a parameter \<open>sip_ParseMsg\<close> of the model:
  it returns an error text or a structured message. \<^verbatim>\<open>Parser.ParseMsg\<close> rejects a
  message without Via and wraps a copy of the message in an envelope whose
  \<^verbatim>\<open>Transport\<close> is the Via's; the other fields are the zero values.
\<close>

type_synonym codec = "string \<Rightarrow> string + sip_Msg"

definition ParseMsg :: "codec \<Rightarrow> store \<Rightarrow> string \<Rightarrow> store \<times> (error + Message)" where
  "ParseMsg sip_ParseMsg h data =
     (case sip_ParseMsg data of
        Inl err \<Rightarrow> (h, Inl (External err))
      | Inr msg0 \<Rightarrow>
          (case Via msg0 of
             None \<Rightarrow> (h, Inl (Errorf (''invalid SIP: '' @ [CHR 0x22] @ ''Via'' @ [CHR 0x22]
                                     @ '' header field is mandatory'')))
           | Some via \<Rightarrow>
               (h @ [msg0],
                Inr \<lparr>Msg = Some (length h), Transport = via_Transport via,
                     Source = [], Destination = [], Respond = None\<rparr>)))"

section \<open>The UDP transport (src/transport/conn.go)\<close>

subsection \<open>The receive path\<close>

text \<open>
  \<^verbatim>\<open>bytes.Trim(s, cutset)\<close> removes the leading and the trailing bytes that are in
  the cutset (the cutsets used here are ASCII, so the bytes are the code points).
\<close>

definition bytes_Trim :: "string \<Rightarrow> string \<Rightarrow> string" where
  "bytes_Trim s cutset =
     rev (dropWhile (\<lambda>c. c \<in> set cutset) (rev (dropWhile (\<lambda>c. c \<in> set cutset) s)))"

definition CR :: char where "CR = CHR 0x0D"
definition LF :: char where "LF = CHR 0x0A"
definition NUL :: char where "NUL = CHR 0x00"

definition TransportUDP :: string where "TransportUDP = ''UDP''"

text \<open>
  What the receive path does to the outside is the list of the calls it makes: to
  the parser with the datagram, and to the dispatch hook \<^verbatim>\<open>handler\<close> with the
  envelope.
\<close>

datatype call = Call_ParseMsg string | Call_handler Message

definition parseAndHandle ::
  "codec \<Rightarrow> store \<Rightarrow> string \<Rightarrow> string \<Rightarrow> (store \<times> call list) option" where
  "parseAndHandle sip_ParseMsg h data src =
     (if length data \<le> 4 \<and> length (bytes_Trim data [CR, LF]) = 0 then Some (h, [])
      else
        (case ParseMsg sip_ParseMsg h data of
           (h1, Inl err) \<Rightarrow> Some (h1, [Call_ParseMsg data])
         | (h1, Inr msg) \<Rightarrow>
             (case deref h1 (Msg msg) of
                None \<Rightarrow> None
              | Some m \<Rightarrow>
                  (case Via m of
                     None \<Rightarrow> Some (h1, [Call_ParseMsg data])
                   | Some via \<Rightarrow>
                       if via_Transport via \<noteq> ''UDP'' then Some (h1, [Call_ParseMsg data])
                       else Some (h1, [Call_ParseMsg data,
                                       Call_handler (msg\<lparr>Transport := ''UDP'', Source := src\<rparr>)])))))"

text \<open>
  The read loop of \<^verbatim>\<open>readConnection\<close> over the results of the successive
  \<^verbatim>\<open>ReadFrom\<close> calls: a datagram with the sender's address, or an error, which ends
  the loop. When the list is used up the loop waits for the next datagram.
\<close>

datatype read_result = Read_ok string string | Read_error

fun readConnection :: "codec \<Rightarrow> store \<Rightarrow> read_result list \<Rightarrow> (store \<times> call list) option" where
  "readConnection sip_ParseMsg h [] = Some (h, [])"
| "readConnection sip_ParseMsg h (Read_error # rs) = Some (h, [])"
| "readConnection sip_ParseMsg h (Read_ok data raddr # rs) =
     (if length (bytes_Trim data [NUL]) = 0 then readConnection sip_ParseMsg h rs
      else
        (case parseAndHandle sip_ParseMsg h data raddr of
           None \<Rightarrow> None
         | Some (h1, cs) \<Rightarrow>
             (case readConnection sip_ParseMsg h1 rs of
                None \<Rightarrow> None
              | Some (h2, cs') \<Rightarrow> Some (h2, cs @ cs'))))"

definition handled :: "call list \<Rightarrow> Message list" where
  "handled cs = concat (map (\<lambda>c. case c of Call_handler m \<Rightarrow> [m] | Call_ParseMsg d \<Rightarrow> []) cs)"

subsection \<open>The write path\<close>

text \<open>
  Go's \<^verbatim>\<open>int\<close> is 64 bits wide on the platforms the server runs on; \<open>int64\<close> is the
  wrap-around of its arithmetic. \<^verbatim>\<open>UDPMTUSize\<close> is a package variable with the
  initial value 1500.
\<close>

definition int64 :: "int \<Rightarrow> int" where
  "int64 x = (x + 2 ^ 63) mod 2 ^ 64 - 2 ^ 63"

definition UDPMTUSize_default :: int where
  "UDPMTUSize_default = 1500"

text \<open>
  The collaborators of \<^verbatim>\<open>WriteMsg\<close> are parameters: \<open>Append\<close> serialises the
  structured message, \<open>ResolveUDPAddr\<close> is the resolver and \<open>WriteTo\<close> the socket,
  which returns the number of bytes written and an error or nil. The calls to the
  resolver and to the socket are recorded in the order they are made.
\<close>

datatype 'a io = IO_ResolveUDPAddr string | IO_WriteTo string 'a

definition WriteMsg ::
  "int \<Rightarrow> (sip_Msg \<Rightarrow> string) \<Rightarrow> (string \<Rightarrow> string + 'a) \<Rightarrow> (string \<Rightarrow> 'a \<Rightarrow> int \<times> string option)
   \<Rightarrow> store \<Rightarrow> Message \<Rightarrow> (error option \<times> 'a io list) option" where
  "WriteMsg UDPMTUSize Append ResolveUDPAddr WriteTo h msg =
     (case deref h (Msg msg) of
        None \<Rightarrow> None
      | Some m \<Rightarrow>
          (let data = Append m
           in if int (length data) > int64 (UDPMTUSize - 200)
              then Some (Some ErrUDPMTUCongestion, [])
              else
                (let dst = Destination msg
                 in case ResolveUDPAddr dst of
                      Inl err \<Rightarrow> Some (Some (External err), [IO_ResolveUDPAddr dst])
                    | Inr raddr \<Rightarrow>
                        (case WriteTo data raddr of
                           (n, Some err) \<Rightarrow>
                             Some (Some (Wrapped ''udp conn err.'' err),
                                   [IO_ResolveUDPAddr dst, IO_WriteTo data raddr])
                         | (n, None) \<Rightarrow>
                             if n = 0
                             then Some (Some (Errorf ''wrote 0 bytes''),
                                        [IO_ResolveUDPAddr dst, IO_WriteTo data raddr])
                             else if n \<noteq> int (length data)
                             then Some (Some (Errorf ''fail to write full message''),
                                        [IO_ResolveUDPAddr dst, IO_WriteTo data raddr])
                             else Some (None, [IO_ResolveUDPAddr dst, IO_WriteTo data raddr])))))"

section \<open>The transport layer (src/transport/layer.go)\<close>

text \<open>
  \<^verbatim>\<open>listenPorts map[string][]int\<close>. A lookup of a missing key gives the nil slice;
  \<^verbatim>\<open>append\<close> to it gives a slice of one element. The lock around the body is the
  atomicity of the function.
\<close>

type_synonym listenPorts = "string \<rightharpoonup> int list"

definition addListenPort :: "string \<Rightarrow> int \<Rightarrow> listenPorts \<Rightarrow> listenPorts" where
  "addListenPort network port lp =
     (case lp network of
        Some ports \<Rightarrow> lp
      | None \<Rightarrow>
          (let lp1 = (if lp network = None then lp(network \<mapsto> []) else lp)
           in lp1(network \<mapsto> (case lp1 network of None \<Rightarrow> [] | Some ports \<Rightarrow> ports) @ [port])))"

text \<open>A sequence of successful listen calls, each registering its network and port.\<close>

fun addListenPorts :: "(string \<times> int) list \<Rightarrow> listenPorts \<Rightarrow> listenPorts" where
  "addListenPorts [] lp = lp"
| "addListenPorts ((network, port) # calls) lp = addListenPorts calls (addListenPort network port lp)"

definition ports_of :: "listenPorts \<Rightarrow> string \<Rightarrow> int list" where
  "ports_of lp network = (case lp network of None \<Rightarrow> [] | Some ports \<Rightarrow> ports)"

subsection \<open>Writing through the layer\<close>

text \<open>
  \<^verbatim>\<open>UDPTransport.conn\<close> is a pointer to the connection of the bound socket, nil
  until \<^verbatim>\<open>Serve\<close> stores it. A connection is given by what its packet socket does
  on \<^verbatim>\<open>WriteTo\<close>. UDP is the only transport the repository implements, so the
  values of \<^verbatim>\<open>Layer.transports\<close> are UDP transports.
\<close>

type_synonym 'a UDPConnection = "string \<Rightarrow> 'a \<Rightarrow> int \<times> string option"

record 'a UDPTransport =
  conn :: "'a UDPConnection option"

record 'a Layer =
  transports :: "string \<rightharpoonup> 'a UDPTransport"

text \<open>
  The collaborators of the write path outside the repository: the package
  variable \<^verbatim>\<open>UDPMTUSize\<close>, the serialiser of the codec and the resolver.
\<close>

record 'a net =
  net_UDPMTUSize :: int
  net_Append :: "sip_Msg \<Rightarrow> string"
  net_ResolveUDPAddr :: "string \<Rightarrow> string + 'a"

text \<open>
  \<^verbatim>\<open>UDPTransport.GetConnection\<close> is \<^verbatim>\<open>return t.conn, nil\<close> with the result type
  \<^verbatim>\<open>Connection\<close>, an interface: the value returned is an interface that holds the
  pointer, and it is not the nil interface even when the pointer is nil. An
  interface value is an option around the pointer it holds.
\<close>

definition UDPTransport_GetConnection ::
  "'a UDPTransport \<Rightarrow> string \<Rightarrow> 'a UDPConnection option option \<times> error option" where
  "UDPTransport_GetConnection t addr = (Some (conn t), None)"

definition getConnection ::
  "'a Layer \<Rightarrow> string \<Rightarrow> string \<Rightarrow> 'a UDPConnection option option \<times> error option" where
  "getConnection l network addr =
     (case transports l network of
        None \<Rightarrow> (None, Some (Errorf (''transport '' @ network @ '' is not supported'')))
      | Some transport \<Rightarrow>
          (let (c, err) = UDPTransport_GetConnection transport addr
           in if err = None \<and> c = None
              then (None, Some (Errorf ''connection does not exist''))
              else (c, err)))"

definition GetConnection ::
  "'a Layer \<Rightarrow> string \<Rightarrow> string \<Rightarrow> 'a UDPConnection option option \<times> error option" where
  "GetConnection l network addr = getConnection l (NetworkToLower network) addr"

text \<open>
  \<^verbatim>\<open>(*UDPConnection).WriteMsg\<close> called through the interface. With a nil receiver
  the method runs until it reads \<^verbatim>\<open>c.PacketConn\<close> in \<^verbatim>\<open>c.WriteTo\<close>, where it
  panics.
\<close>

definition Connection_WriteMsg ::
  "'a net \<Rightarrow> 'a UDPConnection option \<Rightarrow> store \<Rightarrow> Message
   \<Rightarrow> (error option \<times> 'a io list) option" where
  "Connection_WriteMsg net c h msg =
     (case c of
        Some WriteTo \<Rightarrow>
          WriteMsg (net_UDPMTUSize net) (net_Append net) (net_ResolveUDPAddr net) WriteTo h msg
      | None \<Rightarrow>
          (case deref h (Msg msg) of
             None \<Rightarrow> None
           | Some m \<Rightarrow>
               (let data = net_Append net m
                in if int (length data) > int64 (net_UDPMTUSize net - 200)
                   then Some (Some ErrUDPMTUCongestion, [])
                   else
                     (let dst = Destination msg
                      in case net_ResolveUDPAddr net dst of
                           Inl err \<Rightarrow> Some (Some (External err), [IO_ResolveUDPAddr dst])
                         | Inr raddr \<Rightarrow> None))))"

text \<open>
  \<^verbatim>\<open>WriteMsgTo\<close> reads \<^verbatim>\<open>msg.Msg.IsResponse()\<close> and gets the connection the same
  way in both branches.
\<close>

definition WriteMsgTo ::
  "'a net \<Rightarrow> 'a Layer \<Rightarrow> Message \<Rightarrow> string \<Rightarrow> string \<Rightarrow> store
   \<Rightarrow> (error option \<times> 'a io list) option" where
  "WriteMsgTo net l msg addr network h =
     (case deref h (Msg msg) of
        None \<Rightarrow> None
      | Some m \<Rightarrow>
          (let (conn, err) = GetConnection l network addr
           in case err of
                Some e \<Rightarrow> Some (Some e, [])
              | None \<Rightarrow>
                  (case conn of
                     None \<Rightarrow> None
                   | Some c \<Rightarrow> Connection_WriteMsg net c h msg)))"

definition Layer_WriteMsg ::
  "'a net \<Rightarrow> 'a Layer \<Rightarrow> Message \<Rightarrow> store \<Rightarrow> (error option \<times> 'a io list) option" where
  "Layer_WriteMsg net l msg h = WriteMsgTo net l msg (Destination msg) (Transport msg) h"



section \<open>The dispatch pipeline (src/server.go)\<close>

text \<open>
  What the pipeline does to the outside is a list of events: the invocation of the
  handler registered for a method, a call of \<^verbatim>\<open>Layer.WriteMsg\<close> with the envelope
  and the structured message it points to at that moment, and the calls to the
  resolver and to the socket that the write makes. A middleware or a handler is a
  Go function value that reads the server's transport layer as it is when the
  function runs: it takes the layer and the store and returns its result, the store
  as it leaves it and the events it caused, or panics. A request middleware gets the
  pointer to the envelope, so the envelope as it leaves it is part of its result.
\<close>

datatype 'a event = Ev_handler string | Ev_WriteMsg Message sip_Msg | Ev_io "'a io"

type_synonym ('r, 'a) action = "'a Layer \<Rightarrow> store \<Rightarrow> ('r \<times> store \<times> 'a event list) option"

type_synonym 'a RequestMiddleware = "Message \<Rightarrow> (Message, 'a) action"





text \<open>
  \<^verbatim>\<open>defaultRequestMiddleware\<close>; \<open>tag\<close> is the token that \<^verbatim>\<open>GenerateTag\<close> of the
  codec returns. \<^verbatim>\<open>req.Msg.To.Copy()\<close> is nil for a nil To, and reading
  \<^verbatim>\<open>hTo.Param\<close> then panics. \<^verbatim>\<open>hToParam.Next = hToTagParam\<close> makes the new node
  the successor of the first node of the list.
\<close>

definition defaultRequestMiddleware :: "string \<Rightarrow> 'a RequestMiddleware" where
  "defaultRequestMiddleware tag req l h =
     (case deref h (Msg req) of
        None \<Rightarrow> None
      | Some m \<Rightarrow>
          (case To m of
             None \<Rightarrow> None
           | Some hTo \<Rightarrow>
               (let hToParam = addr_Param hTo
                in if Param_Get hToParam ''tag'' \<noteq> None then Some (req, h, [])
                   else
                     (let hToTagParam = (''tag'', tag);
                          hToParam' = (case hToParam of
                                         [] \<Rightarrow> [hToTagParam]
                                       | p # nxt \<Rightarrow> [p, hToTagParam])
                      in case assign h (Msg req) (m\<lparr>To := Some (hTo\<lparr>addr_Param := hToParam'\<rparr>)\<rparr>) of
                           None \<Rightarrow> None
                         | Some h' \<Rightarrow> Some (req, h', [])))))"










section \<open>Concrete inputs\<close>

text \<open>A request as the example client of the repository sends it, stored in cell 0.\<close>

definition ex_addr :: "sip_Param \<Rightarrow> sip_Addr" where
  "ex_addr ps = \<lparr>Display = [], Uri = ''sip:bob@sip.example.org'', addr_Param = ps\<rparr>"

definition ex_msg :: "string \<Rightarrow> string \<Rightarrow> sip_Param \<Rightarrow> sip_Param \<Rightarrow> sip_Msg" where
  "ex_msg method callID toParam fromParam =
     \<lparr>Method = method, Status = 0, Phrase = [],
      Via = Some \<lparr>via_Transport = ''UDP'', via_Param = [(''branch'', ''z9hG4bK776'')]\<rparr>,
      To = Some (ex_addr toParam), From = Some (ex_addr fromParam),
      CallID = callID, CSeq = 1, CSeqMethod = method, Payload = Some ''v=0''\<rparr>"

definition ex_req :: Message where
  "ex_req = \<lparr>Msg = Some 0, Transport = ''UDP'', Source = ''10.0.0.7:5060'',
             Destination = ''10.0.0.1:5060'', Respond = None\<rparr>"

text \<open>A datagram, and a codec that parses it into the request above.\<close>

definition ex_datagram :: string where
  "ex_datagram = ''INVITE sip:bob@sip.example.org SIP/2.0''"

definition ex_codec :: codec where
  "ex_codec data =
     (if data = ex_datagram then Inr (ex_msg ''INVITE'' ''abc'' [] [(''tag'', ''F1'')])
      else Inl ''parse error'')"

text \<open>
  A serialiser that produces \<open>n\<close> bytes, a resolver that accepts every address and a
  socket that writes every byte.
\<close>

definition ex_Append :: "nat \<Rightarrow> sip_Msg \<Rightarrow> string" where
  "ex_Append n m = replicate n (CHR ''x'')"

definition ex_ResolveUDPAddr :: "string \<Rightarrow> string + string" where
  "ex_ResolveUDPAddr dst = Inr dst"

definition ex_WriteTo :: "string \<Rightarrow> string \<Rightarrow> int \<times> string option" where
  "ex_WriteTo data raddr = (int (length data), None)"











section \<open>Lower-casing of network names\<close>

lemma ASCIIToLower_loop_map: "ASCIIToLower_loop s i b = b @ map lower_byte (drop i s)"
proof (induction s i b rule: ASCIIToLower_loop.induct)
  case (1 s i b)
  show ?case
  proof (cases "i < length s")
    case True
    then have "drop i s = s ! i # drop (Suc i) s" by (simp add: Cons_nth_drop_Suc)
    with True "1.IH" show ?thesis by (subst ASCIIToLower_loop.simps) simp
  next
    case False
    then show ?thesis by (subst ASCIIToLower_loop.simps) simp
  qed
qed

lemma ASCIIToLower_map: "ASCIIToLower s = map lower_byte s"
  by (simp add: ASCIIToLower_def ASCIIToLower_loop_map)

lemma lower_byte_all: "\<forall>c. lower_byte c = lowercase_counterpart_spec c"
  by code_simp

lemma ASCIIToLower_literals:
  "ASCIIToLower ''UDP'' = ''udp''" "ASCIIToLower ''TCP'' = ''tcp''"
  "ASCIIToLower ''TLS'' = ''tls''" "ASCIIToLower ''WS'' = ''ws''"
  by code_simp+

text \<open>
  Claim C10. For every string \<open>s\<close>, \<open>NetworkToLower s\<close> equals \<open>ASCIIToLower s\<close>: the
  switch on the four upper-case names agrees with the general loop, and the loop maps
  each byte in \<open>'A'..'Z'\<close> to its lowercase counterpart and leaves every other byte
  unchanged.
\<close>

theorem C10_NetworkToLower_is_ASCIIToLower:
  "NetworkToLower s = ASCIIToLower s \<and> ASCIIToLower s = ASCIIToLower_spec s"
proof
  show "NetworkToLower s = ASCIIToLower s"
    unfolding NetworkToLower_def using ASCIIToLower_literals by simp
  show "ASCIIToLower s = ASCIIToLower_spec s"
    using lower_byte_all by (simp add: ASCIIToLower_map ASCIIToLower_spec_def)
qed

section \<open>Dialog identity\<close>

lemma MakeDialogIDFromMessage_order:
  assumes "GetCallID h m = Some []"
  shows "MakeDialogIDFromMessage h m = Some (Inl (Errorf ''missing Call-ID header''))"
  using assms by (simp add: MakeDialogIDFromMessage_def)

text \<open>
  Where the three getters return, the function joins Call-ID, To-tag and From-tag
  by \<open>__\<close> when none of them is empty, and it returns an error if and only if one of
  them is the empty string.
\<close>

lemma MakeDialogIDFromMessage_defined:
  assumes "GetCallID h m = Some callID"
    and "GetToTag h m = Some toTag"
    and "GetFromTag h m = Some fromTag"
  shows "(callID \<noteq> [] \<and> toTag \<noteq> [] \<and> fromTag \<noteq> [] \<longrightarrow>
            MakeDialogIDFromMessage h m = Some (Inr (callID @ ''__'' @ toTag @ ''__'' @ fromTag)))
         \<and> ((\<exists>e. MakeDialogIDFromMessage h m = Some (Inl e)) \<longleftrightarrow>
              (callID = [] \<or> toTag = [] \<or> fromTag = []))"
  using assms by (simp add: MakeDialogIDFromMessage_def MakeDialogID_def)

lemma MakeDialogIDFromMessage_examples:
  "MakeDialogIDFromMessage [ex_msg ''INVITE'' ''abc'' [(''tag'', ''T1'')] [(''tag'', ''F1'')]] ex_req
     = Some (Inr ''abc__T1__F1'')
   \<and> (\<exists>e. MakeDialogIDFromMessage [ex_msg ''INVITE'' ''abc'' [] [(''tag'', ''F1'')]] ex_req
          = Some (Inl e))"
  using MakeDialogIDFromMessage_defined
          [of "[ex_msg ''INVITE'' ''abc'' [(''tag'', ''T1'')] [(''tag'', ''F1'')]]" ex_req
              "''abc''" "''T1''" "''F1''"]
        MakeDialogIDFromMessage_defined
          [of "[ex_msg ''INVITE'' ''abc'' [] [(''tag'', ''F1'')]]" ex_req
              "''abc''" "[]" "''F1''"]
  by (simp add: GetCallID_def GetToTag_def GetFromTag_def deref_def ex_msg_def ex_req_def
        ex_addr_def Param_Value_def)

text \<open>
  Claim C7 asks that \<open>MakeDialogIDFromMessage\<close> returns, for every message, the
  joined identity or an error, the error exactly when one of the three components is
  empty. For the three messages below it returns neither: the To header has a
  parameter list without tag, the From header has one, the To header is absent.
  The tag getter dereferences nil, where the comment of the function promises an
  error when the To tag or the From tag does not exist.
\<close>

theorem C7_MakeDialogIDFromMessage_panics:
  "MakeDialogIDFromMessage [ex_msg ''INVITE'' ''abc'' [(''lr'', [])] [(''tag'', ''F1'')]] ex_req = None
   \<and> MakeDialogIDFromMessage [ex_msg ''INVITE'' ''abc'' [(''tag'', ''T1'')] [(''lr'', [])]] ex_req = None
   \<and> MakeDialogIDFromMessage [(ex_msg ''INVITE'' ''abc'' [] [(''tag'', ''F1'')])\<lparr>To := None\<rparr>] ex_req
       = None"
  by code_simp

section \<open>The tag getters\<close>

lemma Param_Get_None_iff: "Param_Get ps name = None \<longleftrightarrow> name \<notin> fst ` set ps"
  by (induction ps) force+

lemma Param_Get_Some_Value: "name \<in> fst ` set ps \<Longrightarrow> \<exists>v. Param_Value (Param_Get ps name) = Some v"
proof (induction ps)
  case Nil
  then show ?case by simp
next
  case (Cons p ps)
  obtain n v where p: "p = (n, v)" by (cases p)
  show ?case
  proof (cases "n = name")
    case True
    with p show ?thesis by (simp add: Param_Value_def)
  next
    case False
    with p Cons.prems have "name \<in> fst ` set ps" by auto
    with Cons.IH False p show ?thesis by simp
  qed
qed

text \<open>
  Claim C9. For every message whose To (respectively From) header carries a
  non-empty parameter list without a \<open>tag\<close> parameter, the lookup of the tag returns
  nil and \<open>GetToTag\<close> (respectively \<open>GetFromTag\<close>) dereferences it: the getter
  panics, and so does \<open>MakeDialogIDFromMessage\<close> once it reaches the getter. When both
  headers are present and every non-empty parameter list has a tag parameter,
  \<open>MakeDialogIDFromMessage\<close> returns.
\<close>

theorem C9_tag_lookup_nil_dereference:
  assumes "deref h (Msg m) = Some msg"
  shows "(\<forall>to. To msg = Some to \<and> addr_Param to \<noteq> [] \<and> ''tag'' \<notin> fst ` set (addr_Param to) \<longrightarrow>
            Param_Get (addr_Param to) ''tag'' = None \<and> GetToTag h m = None
            \<and> (CallID msg \<noteq> [] \<longrightarrow> MakeDialogIDFromMessage h m = None))
       \<and> (\<forall>from. From msg = Some from \<and> addr_Param from \<noteq> []
              \<and> ''tag'' \<notin> fst ` set (addr_Param from) \<longrightarrow>
            Param_Get (addr_Param from) ''tag'' = None \<and> GetFromTag h m = None
            \<and> (CallID msg \<noteq> [] \<and> (\<exists>t. GetToTag h m = Some t \<and> t \<noteq> []) \<longrightarrow>
                 MakeDialogIDFromMessage h m = None))
       \<and> (\<forall>to from. To msg = Some to \<and> From msg = Some from
              \<and> (addr_Param to \<noteq> [] \<longrightarrow> ''tag'' \<in> fst ` set (addr_Param to))
              \<and> (addr_Param from \<noteq> [] \<longrightarrow> ''tag'' \<in> fst ` set (addr_Param from)) \<longrightarrow>
            (\<exists>r. MakeDialogIDFromMessage h m = Some r))"
proof (intro conjI allI impI)
  fix to
  assume a: "To msg = Some to \<and> addr_Param to \<noteq> [] \<and> ''tag'' \<notin> fst ` set (addr_Param to)"
  then show g: "Param_Get (addr_Param to) ''tag'' = None"
    by (simp add: Param_Get_None_iff)
  with a assms show t: "GetToTag h m = None"
    by (simp add: GetToTag_def Param_Value_def)
  assume "CallID msg \<noteq> []"
  with t assms show "MakeDialogIDFromMessage h m = None"
    by (simp add: MakeDialogIDFromMessage_def GetCallID_def)
next
  fix frm
  assume a: "From msg = Some frm \<and> addr_Param frm \<noteq> []
              \<and> ''tag'' \<notin> fst ` set (addr_Param frm)"
  then show g: "Param_Get (addr_Param frm) ''tag'' = None"
    by (simp add: Param_Get_None_iff)
  with a assms show t: "GetFromTag h m = None"
    by (simp add: GetFromTag_def Param_Value_def)
  assume "CallID msg \<noteq> [] \<and> (\<exists>t. GetToTag h m = Some t \<and> t \<noteq> [])"
  with t assms show "MakeDialogIDFromMessage h m = None"
    by (auto simp add: MakeDialogIDFromMessage_def GetCallID_def)
next
  fix to frm
  assume a: "To msg = Some to \<and> From msg = Some frm
              \<and> (addr_Param to \<noteq> [] \<longrightarrow> ''tag'' \<in> fst ` set (addr_Param to))
              \<and> (addr_Param frm \<noteq> [] \<longrightarrow> ''tag'' \<in> fst ` set (addr_Param frm))"
  have "\<exists>t. GetToTag h m = Some t"
  proof (cases "addr_Param to = []")
    case True
    with a assms show ?thesis by (simp add: GetToTag_def)
  next
    case False
    with a have "''tag'' \<in> fst ` set (addr_Param to)" by simp
    from Param_Get_Some_Value [OF this] False a assms show ?thesis
      by (simp add: GetToTag_def)
  qed
  moreover have "\<exists>f. GetFromTag h m = Some f"
  proof (cases "addr_Param frm = []")
    case True
    with a assms show ?thesis by (simp add: GetFromTag_def)
  next
    case False
    with a have "''tag'' \<in> fst ` set (addr_Param frm)" by simp
    from Param_Get_Some_Value [OF this] False a assms show ?thesis
      by (simp add: GetFromTag_def)
  qed
  ultimately show "\<exists>r. MakeDialogIDFromMessage h m = Some r"
    using assms by (auto simp add: MakeDialogIDFromMessage_def GetCallID_def)
qed

theorem C9_tag_lookup_nil_dereference_witness:
  "GetToTag [ex_msg ''INVITE'' ''abc'' [(''lr'', [])] [(''tag'', ''F1'')]] ex_req = None
   \<and> MakeDialogIDFromMessage [ex_msg ''INVITE'' ''abc'' [(''lr'', [])] [(''tag'', ''F1'')]] ex_req = None
   \<and> GetFromTag [ex_msg ''INVITE'' ''abc'' [(''tag'', ''T1'')] [(''lr'', [])]] ex_req = None
   \<and> MakeDialogIDFromMessage [ex_msg ''INVITE'' ''abc'' [(''tag'', ''T1'')] [(''lr'', [])]] ex_req = None
   \<and> (\<exists>r. MakeDialogIDFromMessage [ex_msg ''INVITE'' ''abc'' [] [(''lr'', []), (''tag'', ''F1'')]] ex_req = Some r)"
  using C9_tag_lookup_nil_dereference
          [of "[ex_msg ''INVITE'' ''abc'' [(''lr'', [])] [(''tag'', ''F1'')]]" ex_req
              "ex_msg ''INVITE'' ''abc'' [(''lr'', [])] [(''tag'', ''F1'')]"]
        C9_tag_lookup_nil_dereference
          [of "[ex_msg ''INVITE'' ''abc'' [(''tag'', ''T1'')] [(''lr'', [])]]" ex_req
              "ex_msg ''INVITE'' ''abc'' [(''tag'', ''T1'')] [(''lr'', [])]"]
        C9_tag_lookup_nil_dereference
          [of "[ex_msg ''INVITE'' ''abc'' [] [(''lr'', []), (''tag'', ''F1'')]]" ex_req
              "ex_msg ''INVITE'' ''abc'' [] [(''lr'', []), (''tag'', ''F1'')]"]
  by (simp add: deref_def ex_msg_def ex_req_def ex_addr_def GetToTag_def Param_Value_def)

section \<open>Replies\<close>

lemma NewResponseFromRequest_Some:
  assumes "Msg req = Some p" and "p < length h"
  shows "NewResponseFromRequest h req status phrase =
           Some (h @ [(h ! p)\<lparr>Status := status, Phrase := phrase\<rparr>],
                 \<lparr>Msg = Some (length h), Transport = Transport req, Source = Destination req,
                  Destination = Source req, Respond = Respond req\<rparr>)"
  using assms
  by (simp add: NewResponseFromRequest_def Clone_def Msg_Copy_def deref_def assign_def)

text \<open>
  Claim C6. For every request envelope (with a structured message behind its
  pointer), \<open>NewResponseFromRequest\<close> returns an envelope whose source is the
  request's destination and whose destination is the request's source; the message
  behind it has the given status and phrase and is otherwise equal to the request's;
  it lives in a new cell of the store, and the cells that existed before, the
  request's among them, are unchanged.
\<close>

theorem C6_NewResponseFromRequest:
  assumes "Msg req = Some p" and "p < length h"
  shows "\<exists>h' res m'.
           NewResponseFromRequest h req status phrase = Some (h', res)
           \<and> Source res = Destination req \<and> Destination res = Source req
           \<and> Transport res = Transport req
           \<and> deref h' (Msg res) = Some m'
           \<and> Status m' = status \<and> Phrase m' = phrase
           \<and> m' = (h ! p)\<lparr>Status := status, Phrase := phrase\<rparr>
           \<and> Msg res \<noteq> Msg req \<and> deref h (Msg res) = None
           \<and> deref h' (Msg req) = deref h (Msg req)
           \<and> take (length h) h' = h"
  using assms NewResponseFromRequest_Some [OF assms, of status phrase]
  by (simp add: deref_def nth_append)

theorem C6_NewResponseFromRequest_witness:
  "\<exists>h' res m'.
     NewResponseFromRequest [ex_msg ''INVITE'' ''abc'' [] [(''tag'', ''F1'')]] ex_req 200 ''OK''
       = Some (h', res)
     \<and> Source res = Destination ex_req \<and> Destination res = Source ex_req
     \<and> Transport res = Transport ex_req
     \<and> deref h' (Msg res) = Some m'
     \<and> Status m' = 200 \<and> Phrase m' = ''OK''
     \<and> m' = ([ex_msg ''INVITE'' ''abc'' [] [(''tag'', ''F1'')]] ! 0)\<lparr>Status := 200, Phrase := ''OK''\<rparr>
     \<and> Msg res \<noteq> Msg ex_req
     \<and> deref [ex_msg ''INVITE'' ''abc'' [] [(''tag'', ''F1'')]] (Msg res) = None
     \<and> deref h' (Msg ex_req) = deref [ex_msg ''INVITE'' ''abc'' [] [(''tag'', ''F1'')]] (Msg ex_req)
     \<and> take (length [ex_msg ''INVITE'' ''abc'' [] [(''tag'', ''F1'')]]) h'
         = [ex_msg ''INVITE'' ''abc'' [] [(''tag'', ''F1'')]]"
proof (rule C6_NewResponseFromRequest)
  show "Msg ex_req = Some 0" by (simp add: ex_req_def)
  show "0 < length [ex_msg ''INVITE'' ''abc'' [] [(''tag'', ''F1'')]]" by simp
qed

lemma NewResponseFromRequest_GetToTag:
  assumes "NewResponseFromRequest h req status phrase = Some (h', res)"
  shows "GetToTag h' res = GetToTag h req"
proof -
  from assms obtain p where p: "Msg req = Some p" "p < length h"
    by (auto simp: NewResponseFromRequest_def Clone_def Msg_Copy_def deref_def assign_def
          split: option.splits if_splits)
  from NewResponseFromRequest_Some [OF p, of status phrase] assms p show ?thesis
    by (auto simp: GetToTag_def deref_def)
qed

lemma NewResponseFromRequest_tag_panics:
  assumes "deref h (Msg req) = Some m" and "To m = Some to" and "addr_Param to \<noteq> []"
    and "Param_Get (addr_Param to) ''tag'' = None"
  shows "NewResponseFromRequest_tag Tag h req status phrase = None"
proof -
  from assms(1) obtain p where p: "Msg req = Some p" "p < length h" "h ! p = m"
    by (auto simp: deref_def split: option.splits if_splits)
  have "GetToTag (h @ [m\<lparr>Status := status, Phrase := phrase\<rparr>]) req = None"
    using p assms by (simp add: GetToTag_def deref_def nth_append Param_Value_def)
  with p show ?thesis
    by (simp add: NewResponseFromRequest_tag_def Clone_def Msg_Copy_def deref_def assign_def)
qed

text \<open>
  Claim C3 asks that a reply built from a request without To-tag carries a To-tag
  generated by \<open>NewResponseFromRequest\<close>. The request below is the INVITE of the
  example client: its To header has no parameter. The reply built from it has no
  To-tag, in the version of src/response.go and in the second version with gosip's
  \<open>Tag\<close>. In the second version a request whose To header has parameters but no
  tag builds no reply at all, whatever \<open>Tag\<close> does: \<open>GetToTag\<close> panics.
\<close>

theorem C3_reply_without_To_tag:
  "(case NewResponseFromRequest [ex_msg ''INVITE'' ''abc'' [] [(''tag'', ''F1'')]] ex_req 200 ''OK'' of
      None \<Rightarrow> False
    | Some (h', res) \<Rightarrow> GetToTag h' res = Some [])
   \<and> (case NewResponseFromRequest_tag (gosip_Tag ''T9'')
             [ex_msg ''INVITE'' ''abc'' [] [(''tag'', ''F1'')]] ex_req 200 ''OK'' of
        None \<Rightarrow> False
      | Some (h', res) \<Rightarrow> GetToTag h' res = Some [])
   \<and> NewResponseFromRequest_tag Tag
        [ex_msg ''INVITE'' ''abc'' [(''lr'', [])] [(''tag'', ''F1'')]] ex_req 200 ''OK'' = None"
proof (intro conjI)
  show "case NewResponseFromRequest [ex_msg ''INVITE'' ''abc'' [] [(''tag'', ''F1'')]] ex_req 200 ''OK'' of
      None \<Rightarrow> False
    | Some (h', res) \<Rightarrow> GetToTag h' res = Some []"
    by code_simp
  show "case NewResponseFromRequest_tag (gosip_Tag ''T9'')
             [ex_msg ''INVITE'' ''abc'' [] [(''tag'', ''F1'')]] ex_req 200 ''OK'' of
        None \<Rightarrow> False
      | Some (h', res) \<Rightarrow> GetToTag h' res = Some []"
    by code_simp
  have 1: "deref [ex_msg ''INVITE'' ''abc'' [(''lr'', [])] [(''tag'', ''F1'')]] (Msg ex_req)
             = Some (ex_msg ''INVITE'' ''abc'' [(''lr'', [])] [(''tag'', ''F1'')])"
    by (simp add: deref_def ex_req_def)
  have 2: "To (ex_msg ''INVITE'' ''abc'' [(''lr'', [])] [(''tag'', ''F1'')]) = Some (ex_addr [(''lr'', [])])"
    by (simp add: ex_msg_def)
  have 3: "addr_Param (ex_addr [(''lr'', [])]) \<noteq> []" by (simp add: ex_addr_def)
  have 4: "Param_Get (addr_Param (ex_addr [(''lr'', [])])) ''tag'' = None" by (simp add: ex_addr_def)
  show "NewResponseFromRequest_tag Tag
        [ex_msg ''INVITE'' ''abc'' [(''lr'', [])] [(''tag'', ''F1'')]] ex_req 200 ''OK'' = None"
    by (rule NewResponseFromRequest_tag_panics [OF 1 2 3 4])
qed

section \<open>The UDP receive path\<close>

lemma dropWhile_all_Nil: "(\<forall>x\<in>set (dropWhile P xs). P x) \<longleftrightarrow> (\<forall>x\<in>set xs. P x)"
  by (induction xs) auto

lemma bytes_Trim_Nil_iff: "bytes_Trim s cutset = [] \<longleftrightarrow> set s \<subseteq> set cutset"
proof -
  have "bytes_Trim s cutset = [] \<longleftrightarrow>
          (\<forall>x\<in>set (dropWhile (\<lambda>c. c \<in> set cutset) s). x \<in> set cutset)"
    unfolding bytes_Trim_def rev_is_Nil_conv dropWhile_eq_Nil_conv set_rev ..
  also have "\<dots> \<longleftrightarrow> (\<forall>x\<in>set s. x \<in> set cutset)"
    by (rule dropWhile_all_Nil)
  finally show ?thesis by blast
qed

lemma keep_alive_Trim:
  "filter (\<lambda>c. c \<noteq> CR \<and> c \<noteq> LF) data = [] \<longleftrightarrow> length (bytes_Trim data [CR, LF]) = 0"
  by (auto simp add: bytes_Trim_Nil_iff filter_empty_conv)

text \<open>
  Claim C8. For every received datagram of at most 4 bytes whose content is empty
  once the CR and LF bytes are removed, the receive path returns without calling the
  codec or the dispatch hook: \<open>parseAndHandle\<close> makes no call and leaves the store as
  it is, and the read loop goes on with the next datagram as if this one had not
  arrived.
\<close>

theorem C8_keep_alive_absorbed:
  assumes "length data \<le> 4" and "filter (\<lambda>c. c \<noteq> CR \<and> c \<noteq> LF) data = []"
  shows "parseAndHandle sip_ParseMsg h data src = Some (h, [])
       \<and> readConnection sip_ParseMsg h (Read_ok data src # rs) = readConnection sip_ParseMsg h rs"
proof -
  from assms(2) have t: "length (bytes_Trim data [CR, LF]) = 0" by (simp only: keep_alive_Trim)
  with assms(1) have p: "parseAndHandle sip_ParseMsg h data src = Some (h, [])"
    by (simp add: parseAndHandle_def)
  then have "readConnection sip_ParseMsg h (Read_ok data src # rs) = readConnection sip_ParseMsg h rs"
    by (cases "readConnection sip_ParseMsg h rs") auto
  with p show ?thesis by simp
qed

theorem C8_keep_alive_absorbed_witness:
  "parseAndHandle ex_codec [] [CR, LF] ''10.0.0.7:5060'' = Some ([], [])
   \<and> readConnection ex_codec [] [Read_ok [CR, LF] ''10.0.0.7:5060'', Read_error] = Some ([], [])"
proof -
  have 1: "length [CR, LF] \<le> 4" by simp
  have 2: "filter (\<lambda>c. c \<noteq> CR \<and> c \<noteq> LF) [CR, LF] = []" by simp
  from C8_keep_alive_absorbed [OF 1 2, of ex_codec "[]" "''10.0.0.7:5060''" "[Read_error]"]
  show ?thesis by simp
qed

lemma parseAndHandle_accepts:
  assumes "\<not> (length data \<le> 4 \<and> length (bytes_Trim data [CR, LF]) = 0)"
    and "sip_ParseMsg data = Inr msg0" and "Via msg0 = Some via" and "via_Transport via = ''UDP''"
  shows "parseAndHandle sip_ParseMsg h data src =
           Some (h @ [msg0],
                 [Call_ParseMsg data,
                  Call_handler \<lparr>Msg = Some (length h), Transport = ''UDP'', Source = src,
                                Destination = [], Respond = None\<rparr>])"
  using assms by (auto simp add: parseAndHandle_def ParseMsg_def deref_def)

lemma parseAndHandle_handled:
  assumes "parseAndHandle sip_ParseMsg h data src = Some (h', cs)" and "env \<in> set (handled cs)"
  shows "Transport env = ''UDP'' \<and> Source env = src"
  using assms
  by (auto simp add: parseAndHandle_def handled_def
        split: if_splits prod.splits sum.splits option.splits)

text \<open>
  Claim C1, amended. For every datagram accepted by the UDP receive path (not a
  keep-alive, parsed successfully, Via present, Via transport \<open>UDP\<close>), the dispatch
  hook is called once, with an envelope whose \<open>Transport\<close> is the upper-case name
  \<open>UDP\<close> of the transport, which \<open>NetworkToLower\<close> maps to \<open>udp\<close> when the reply is
  routed, and whose \<open>Source\<close> is the sender's address string.
\<close>

theorem C1_envelope_stamped_UDP:
  assumes "\<not> (length data \<le> 4 \<and> length (bytes_Trim data [CR, LF]) = 0)"
    and "sip_ParseMsg data = Inr msg0" and "Via msg0 = Some via" and "via_Transport via = ''UDP''"
  shows "\<exists>h' env. parseAndHandle sip_ParseMsg h data src
                     = Some (h', [Call_ParseMsg data, Call_handler env])
           \<and> Transport env = ''UDP'' \<and> Transport env = TransportUDP
           \<and> NetworkToLower (Transport env) = ''udp''
           \<and> Source env = src
           \<and> deref h' (Msg env) = Some msg0"
  using parseAndHandle_accepts [of data sip_ParseMsg msg0 via h src] assms
  by (simp add: TransportUDP_def NetworkToLower_def deref_def)

text \<open>
  Claim C1 as stated, with the lower-case tag \<open>udp\<close> in the envelope, fails: the
  datagram below is accepted and the envelope passed to the hook carries \<open>UDP\<close>.
\<close>

theorem C1_transportName_not_lowercase:
  "parseAndHandle ex_codec [] ex_datagram ''10.0.0.7:5060''
     = Some ([ex_msg ''INVITE'' ''abc'' [] [(''tag'', ''F1'')]],
             [Call_ParseMsg ex_datagram,
              Call_handler \<lparr>Msg = Some 0, Transport = ''UDP'', Source = ''10.0.0.7:5060'',
                            Destination = [], Respond = None\<rparr>])
   \<and> Transport \<lparr>Msg = Some 0, Transport = ''UDP'', Source = ''10.0.0.7:5060'',
                 Destination = [], Respond = None\<rparr> \<noteq> ''udp''"
proof -
  have 1: "\<not> (length ex_datagram \<le> 4 \<and> length (bytes_Trim ex_datagram [CR, LF]) = 0)"
    by (simp add: ex_datagram_def)
  have 2: "ex_codec ex_datagram = Inr (ex_msg ''INVITE'' ''abc'' [] [(''tag'', ''F1'')])"
    by (simp add: ex_codec_def)
  have 3: "Via (ex_msg ''INVITE'' ''abc'' [] [(''tag'', ''F1'')])
             = Some \<lparr>via_Transport = ''UDP'', via_Param = [(''branch'', ''z9hG4bK776'')]\<rparr>"
    by (simp add: ex_msg_def)
  from parseAndHandle_accepts [of ex_datagram ex_codec _ _ "[]" "''10.0.0.7:5060''", OF 1 2 3]
  show ?thesis by simp
qed

theorem C1_envelope_stamped_UDP_witness:
  "\<exists>h' env. parseAndHandle ex_codec [] ex_datagram ''10.0.0.7:5060''
                     = Some (h', [Call_ParseMsg ex_datagram, Call_handler env])
           \<and> Transport env = ''UDP'' \<and> Transport env = TransportUDP
           \<and> NetworkToLower (Transport env) = ''udp''
           \<and> Source env = ''10.0.0.7:5060''
           \<and> deref h' (Msg env) = Some (ex_msg ''INVITE'' ''abc'' [] [(''tag'', ''F1'')])"
proof (rule C1_envelope_stamped_UDP
    [of ex_datagram ex_codec "ex_msg ''INVITE'' ''abc'' [] [(''tag'', ''F1'')]"
        "\<lparr>via_Transport = ''UDP'', via_Param = [(''branch'', ''z9hG4bK776'')]\<rparr>"])
  show "\<not> (length ex_datagram \<le> 4 \<and> length (bytes_Trim ex_datagram [CR, LF]) = 0)"
    by (simp add: ex_datagram_def)
  show "ex_codec ex_datagram = Inr (ex_msg ''INVITE'' ''abc'' [] [(''tag'', ''F1'')])"
    by (simp add: ex_codec_def)
  show "Via (ex_msg ''INVITE'' ''abc'' [] [(''tag'', ''F1'')])
             = Some \<lparr>via_Transport = ''UDP'', via_Param = [(''branch'', ''z9hG4bK776'')]\<rparr>"
    by (simp add: ex_msg_def)
  show "via_Transport \<lparr>via_Transport = ''UDP'', via_Param = [(''branch'', ''z9hG4bK776'')]\<rparr> = ''UDP''"
    by simp
qed

section \<open>The UDP write path\<close>

lemma int64_id: "- (2 ^ 63) \<le> x \<Longrightarrow> x < 2 ^ 63 \<Longrightarrow> int64 x = x"
  by (simp add: int64_def)

text \<open>
  Claim C5. For every message whose serialised form is longer than
  \<open>UDPMTUSize - 200\<close> bytes, \<open>WriteMsg\<close> returns \<open>ErrUDPMTUCongestion\<close> and has called
  neither the resolver nor the socket; for a serialised form within the budget it
  goes on to the resolver and does not return that error. \<open>UDPMTUSize\<close> is any value
  for which the subtraction does not wrap around, 1500 by default.
\<close>

theorem C5_WriteMsg_MTU:
  assumes "deref h (Msg msg) = Some m"
    and "- (2 ^ 63) + 200 \<le> UDPMTUSize" and "UDPMTUSize < 2 ^ 63"
  shows "(int (length (Append m)) > UDPMTUSize - 200 \<longrightarrow>
            WriteMsg UDPMTUSize Append ResolveUDPAddr WriteTo h msg
              = Some (Some ErrUDPMTUCongestion, []))
       \<and> (int (length (Append m)) \<le> UDPMTUSize - 200 \<longrightarrow>
            (\<exists>err calls. WriteMsg UDPMTUSize Append ResolveUDPAddr WriteTo h msg = Some (err, calls)
                 \<and> err \<noteq> Some ErrUDPMTUCongestion
                 \<and> calls \<noteq> [] \<and> hd calls = IO_ResolveUDPAddr (Destination msg)))"
proof -
  have i: "int64 (UDPMTUSize - 200) = UDPMTUSize - 200"
    using assms(2,3) by (intro int64_id) simp_all
  show ?thesis
    using assms(1) i
    by (auto simp add: WriteMsg_def Let_def split: sum.splits option.splits prod.splits)
qed

theorem C5_WriteMsg_MTU_witness:
  "WriteMsg UDPMTUSize_default (ex_Append 1301) ex_ResolveUDPAddr ex_WriteTo
       [ex_msg ''INVITE'' ''abc'' [] [(''tag'', ''F1'')]] ex_req
     = Some (Some ErrUDPMTUCongestion, [])
   \<and> (\<exists>err calls.
         WriteMsg UDPMTUSize_default (ex_Append 1300) ex_ResolveUDPAddr ex_WriteTo
             [ex_msg ''INVITE'' ''abc'' [] [(''tag'', ''F1'')]] ex_req
           = Some (err, calls)
         \<and> err \<noteq> Some ErrUDPMTUCongestion
         \<and> calls \<noteq> [] \<and> hd calls = IO_ResolveUDPAddr (Destination ex_req))"
proof -
  have 1: "deref [ex_msg ''INVITE'' ''abc'' [] [(''tag'', ''F1'')]] (Msg ex_req)
           = Some (ex_msg ''INVITE'' ''abc'' [] [(''tag'', ''F1'')])"
    by (simp add: deref_def ex_req_def)
  have 2: "- (2 ^ 63) + 200 \<le> UDPMTUSize_default" by (simp add: UDPMTUSize_default_def)
  have 3: "UDPMTUSize_default < 2 ^ 63" by (simp add: UDPMTUSize_default_def)
  from C5_WriteMsg_MTU [OF 1 2 3, of "ex_Append 1301" ex_ResolveUDPAddr ex_WriteTo]
       C5_WriteMsg_MTU [OF 1 2 3, of "ex_Append 1300" ex_ResolveUDPAddr ex_WriteTo]
  show ?thesis by (simp add: ex_Append_def UDPMTUSize_default_def)
qed

section \<open>Listening ports\<close>

lemma addListenPort_registered: "lp network = Some ports \<Longrightarrow> addListenPort network port lp = lp"
  by (simp add: addListenPort_def)

lemma addListenPort_new: "lp network = None \<Longrightarrow> addListenPort network port lp = lp(network \<mapsto> [port])"
  by (simp add: addListenPort_def)

lemma addListenPorts_registered:
  "lp network = Some ports \<Longrightarrow> addListenPorts calls lp network = Some ports"
proof (induction calls arbitrary: lp)
  case Nil
  then show ?case by simp
next
  case (Cons c calls)
  obtain n p where c: "c = (n, p)" by (cases c)
  have "addListenPort n p lp network = Some ports"
    using Cons.prems by (cases "lp n") (auto simp: addListenPort_def)
  then have "addListenPorts calls (addListenPort n p lp) network = Some ports"
    by (rule Cons.IH)
  with c show ?case by simp
qed

text \<open>
  Claim C2 asks that a listen call for a new port under a network that is already
  registered still records that port. After the calls for \<open>udp\<close> port 5060 and
  \<open>udp\<close> port 5061 the bookkeeping holds 5060 only: \<open>addListenPort\<close> tests whether
  the network is registered, not whether the port is.
\<close>

theorem C2_second_port_not_recorded:
  "ports_of (addListenPorts [(''udp'', 5060), (''udp'', 5061)] Map.empty) ''udp'' = [5060]
   \<and> 5061 \<notin> set (ports_of (addListenPorts [(''udp'', 5060), (''udp'', 5061)] Map.empty) ''udp'')"
  by (simp add: addListenPort_def ports_of_def)

section \<open>Unregistered methods\<close>



lemma defaultRequestMiddleware_envelope:
  assumes "defaultRequestMiddleware tag req l h = Some (req1, h1, evs)"
  shows "req1 = req \<and> evs = [] \<and> length h1 = length h"
  using assms
  by (auto simp add: defaultRequestMiddleware_def Let_def assign_def
        split: option.splits if_splits)

lemma defaultRequestMiddleware_returns:
  assumes "deref h (Msg req) = Some m" and "To m = Some to"
  shows "\<exists>h1. defaultRequestMiddleware tag req l h = Some (req, h1, [])"
  using assms
  by (auto simp add: defaultRequestMiddleware_def Let_def assign_def deref_def
        split: option.splits if_splits)

lemma defaultRequestMiddleware_no_To:
  assumes "deref h (Msg req) = Some m" and "To m = None"
  shows "defaultRequestMiddleware tag req l h = None"
  using assms by (simp add: defaultRequestMiddleware_def)

lemma Layer_WriteMsg_sent:
  assumes "deref h (Msg msg) = Some m"
    and "transports l (NetworkToLower (Transport msg)) = Some t" and "conn t = Some WriteTo"
    and "\<not> int (length (net_Append net m)) > int64 (net_UDPMTUSize net - 200)"
    and "net_ResolveUDPAddr net (Destination msg) = Inr raddr"
    and "WriteTo (net_Append net m) raddr = (int (length (net_Append net m)), None)"
    and "net_Append net m \<noteq> []"
  shows "Layer_WriteMsg net l msg h =
           Some (None, [IO_ResolveUDPAddr (Destination msg), IO_WriteTo (net_Append net m) raddr])"
  using assms
  by (simp add: Layer_WriteMsg_def WriteMsgTo_def GetConnection_def getConnection_def
        UDPTransport_GetConnection_def Connection_WriteMsg_def WriteMsg_def)





end
